theory Spec2Isabelle
  imports Main "HOL-Library.Sublist"
begin

section \<open>JavaScript strings and the operations the validators use\<close>

text \<open>
  A JavaScript string is a sequence of UTF-16 code units. It is modelled as a
  \<open>string\<close> in which every \<open>char\<close> stands for one code unit below 256, so
  \<open>length\<close> is \<open>String.prototype.length\<close> and \<open>s ! i\<close> is \<open>s[i]\<close> on such
  strings. A value that may be \<open>undefined\<close> or \<open>null\<close> is an \<open>option\<close>.
\<close>

definition isDigit :: "char \<Rightarrow> bool" where
  \<comment> \<open>the regular-expression class \<open>\d\<close>\<close>
  "isDigit c = (c \<in> set ''0123456789'')"

fun str_includes :: "string \<Rightarrow> string \<Rightarrow> bool" where
  \<comment> \<open>\<open>s.includes(t)\<close>: \<open>t\<close> occurs in \<open>s\<close> as a contiguous run\<close>
  "str_includes [] t = (t = [])"
| "str_includes (c # s) t = (prefix t (c # s) \<or> str_includes s t)"

definition truthy :: "string option \<Rightarrow> bool" where
  \<comment> \<open>\<open>undefined\<close>, \<open>null\<close> and the empty string are falsy\<close>
  "truthy v = (case v of None \<Rightarrow> False | Some s \<Rightarrow> s \<noteq> [])"

definition charAt :: "string \<Rightarrow> nat \<Rightarrow> char option" where
  \<comment> \<open>\<open>s[i]\<close>, \<open>undefined\<close> out of range\<close>
  "charAt s i = (if i < length s then Some (s ! i) else None)"

definition parseInt :: "char option \<Rightarrow> int option" where
  \<comment> \<open>\<open>parseInt\<close> of a one-character string or of \<open>undefined\<close>; \<open>None\<close> is \<open>NaN\<close>\<close>
  "parseInt v = (case v of None \<Rightarrow> None
     | Some c \<Rightarrow> if isDigit c then Some (int (of_char c) - 48) else None)"

definition num_eq_off :: "int option \<Rightarrow> int option \<Rightarrow> int \<Rightarrow> bool" where
  \<comment> \<open>\<open>a === b + d\<close> on numbers: false as soon as one side is \<open>NaN\<close>\<close>
  "num_eq_off a b d = (case (a, b) of (Some x, Some y) \<Rightarrow> x = y + d | _ \<Rightarrow> False)"

section \<open>Security-code validation of the two endpoints\<close>

definition test_4digits :: "string \<Rightarrow> bool" where
  \<comment> \<open>\<open>/^\d{4}$/.test(s)\<close>\<close>
  "test_4digits s = (length s = 4 \<and> list_all isDigit s)"

definition isConsecutive :: "string \<Rightarrow> bool" where
  "isConsecutive code =
     ((num_eq_off (parseInt (charAt code 1)) (parseInt (charAt code 0)) 1 \<and>
       num_eq_off (parseInt (charAt code 2)) (parseInt (charAt code 1)) 1 \<and>
       num_eq_off (parseInt (charAt code 3)) (parseInt (charAt code 2)) 1) \<or>
      (num_eq_off (parseInt (charAt code 1)) (parseInt (charAt code 0)) (- 1) \<and>
       num_eq_off (parseInt (charAt code 2)) (parseInt (charAt code 1)) (- 1) \<and>
       num_eq_off (parseInt (charAt code 3)) (parseInt (charAt code 2)) (- 1)))"

text \<open>
  The check of \<open>POST /shipments\<close>: \<open>None\<close> lets the request through to
  \<open>registerShipment\<close>, \<open>Some e\<close> answers 400 with the error \<open>e\<close> and returns.
\<close>

definition shipments_check :: "string option \<Rightarrow> string option" where
  "shipments_check securityCode =
     (if truthy securityCode then
        (case securityCode of Some code \<Rightarrow>
           if \<not> test_4digits code
           then Some ''securityCode must be exactly 4 digits''
           else if isConsecutive code
           then Some ''securityCode cannot have consecutive digits (e.g., 1234, 4321)''
           else None)
      else None)"

text \<open>The check of \<open>POST /register\<close> (massive shipments).\<close>

definition register_check :: "string option \<Rightarrow> string option" where
  "register_check securityCode =
     (if truthy securityCode then
        (case securityCode of Some pin \<Rightarrow>
           let ascending = ''0123456789''; descending = ''9876543210''
           in if length pin = 4 \<and> (str_includes ascending pin \<or> str_includes descending pin)
              then Some ''Security code cannot be a sequence of 4 consecutive digits (e.g. 1234, 4321)''
              else None)
      else None)"

text \<open>
  The fourteen runs of four consecutive digits, ascending and descending, written
  out, for comparison with the two checks; \<open>dv\<close> is the code unit of a character.
\<close>

definition run4 :: "string \<Rightarrow> bool" where
  "run4 pin = (pin \<in> set [''0123'', ''1234'', ''2345'', ''3456'', ''4567'', ''5678'', ''6789'',
                            ''9876'', ''8765'', ''7654'', ''6543'', ''5432'', ''4321'', ''3210''])"

definition dv :: "char \<Rightarrow> nat" where
  "dv c = of_char c"

section \<open>Result extraction of the single-shipment workflow\<close>

text \<open>
  The character classes of the regular expressions, on code units below 256:
  \<open>\s\<close> is tab, line feed, vertical tab, form feed, carriage return, space and the
  no-break space; \<open>[A-Z]\<close> is the 26 capital letters.
\<close>

definition isSpace :: "char \<Rightarrow> bool" where
  "isSpace c = ((of_char c :: nat) \<in> {9, 10, 11, 12, 13, 32, 160})"

definition isUpperAZ :: "char \<Rightarrow> bool" where
  "isUpperAZ c = (65 \<le> (of_char c :: nat) \<and> (of_char c :: nat) \<le> 90)"

definition isDigitOrDot :: "char \<Rightarrow> bool" where
  "isDigitOrDot c = (isDigit c \<or> c = CHR ''.'')"

text \<open>
  \<open>s.match(re)\<close> without the global flag returns the leftmost match: the pattern is
  tried at every position from the left, \<open>at\<close> being the pattern anchored at the
  head of its argument.
\<close>

fun first_match :: "(string \<Rightarrow> 'a option) \<Rightarrow> string \<Rightarrow> 'a option" where
  "first_match at [] = at []"
| "first_match at (c # s) = (case at (c # s) of Some g \<Rightarrow> Some g | None \<Rightarrow> first_match at s)"

text \<open>
  \<open>/([A-Z]\d+)\s*-\s*(\d+)/\<close> anchored at the head of the string. Every quantifier
  is followed by a character outside its own class, so the greedy choice
  (\<open>takeWhile\<close>) is the only one that can succeed and no backtracking is lost.
\<close>

definition regMatch_at :: "string \<Rightarrow> (string \<times> string) option" where
  "regMatch_at s =
     (case s of [] \<Rightarrow> None
      | c # r \<Rightarrow>
          if isUpperAZ c \<and> takeWhile isDigit r \<noteq> [] then
            (case dropWhile isSpace (dropWhile isDigit r) of [] \<Rightarrow> None
             | d # r2 \<Rightarrow>
                 if d = CHR ''-'' \<and> takeWhile isDigit (dropWhile isSpace r2) \<noteq> []
                 then Some (c # takeWhile isDigit r, takeWhile isDigit (dropWhile isSpace r2))
                 else None)
          else None)"

definition regMatch :: "string \<Rightarrow> (string \<times> string) option" where
  \<comment> \<open>\<open>content.match(/([A-Z]\d+)\s*-\s*(\d+)/)\<close>: the leftmost match, its two groups\<close>
  "regMatch content = first_match regMatch_at content"

definition priceMatch_at :: "string \<Rightarrow> string option" where
  "priceMatch_at s =
     (case s of c1 # c2 # r \<Rightarrow>
        if c1 = CHR ''S'' \<and> c2 = CHR ''/'' \<and> takeWhile isDigitOrDot (dropWhile isSpace r) \<noteq> []
        then Some (takeWhile isDigitOrDot (dropWhile isSpace r))
        else None
      | _ \<Rightarrow> None)"

definition priceMatch :: "string \<Rightarrow> string option" where
  \<comment> \<open>\<open>content.match(/S\/\s*([\d.]+)/)\<close>: the group of the leftmost match\<close>
  "priceMatch content = first_match priceMatch_at content"

text \<open>
  The object a registration returns. \<open>error\<close> and \<open>details\<close> are the fields of the
  failure that \<open>registerShipment\<close> builds in its \<open>catch\<close>. \<open>parseFloat\<close> yields a
  floating-point number; it is a parameter \<open>pf\<close> of the model, applied to the text the
  price pattern captured.
\<close>

record 'n shipment_result =
  success :: bool
  registrationNumber :: "string option"
  price :: "'n option"
  message :: "string option"
  error :: "string option"
  details :: "string option"

text \<open>
  \<open>content\<close> is \<open>await page.content()\<close>; \<open>title\<close> is the outcome of
  \<open>page.locator('.swal2-title').innerText()\<close>, \<open>None\<close> when that promise is rejected.
\<close>

definition getRegistrationResult ::
    "(string \<Rightarrow> 'n) \<Rightarrow> string \<Rightarrow> string option \<Rightarrow> 'n shipment_result" where
  "getRegistrationResult pf content title =
     (if str_includes content ''Registrado'' then
        \<lparr> success = True,
          registrationNumber =
            (case regMatch content of Some (g1, g2) \<Rightarrow> Some (g1 @ '' - '' @ g2) | None \<Rightarrow> None),
          price = (case priceMatch content of Some g \<Rightarrow> Some (pf g) | None \<Rightarrow> None),
          message = Some ''Shipment registered successfully'',
          error = None, details = None \<rparr>
      else
        \<lparr> success = False, registrationNumber = None, price = None,
          message = Some (case title of Some t \<Rightarrow> t | None \<Rightarrow> ''Unknown error''),
          error = None, details = None \<rparr>)"

section \<open>The scrape of the pending-shipments view\<close>

text \<open>
  The function that \<open>registerMassiveShipment\<close> evaluates in the page works on the
  DOM. An element carries its class list, its \<open>textContent\<close> (read only on elements
  without element children), its \<open>innerText\<close> (which the browser computes from the
  rendering) and its element children.
\<close>

datatype element =
  Element (classes: "string list") (textContent: string) (innerText: string)
          (children: "element list")

definition label_orden :: string where
  \<comment> \<open>\<open>N\<degree> de Orden\<close>, the degree sign being code unit 0xB0\<close>
  "label_orden = ''N'' @ [CHR 0xB0] @ '' de Orden''"

definition label_codigo :: string where
  \<comment> \<open>\<open>C\<acute>odigo\<close> with o acute, code unit 0xF3\<close>
  "label_codigo = ''C'' @ [CHR 0xF3] @ ''digo''"

definition canon :: "char \<Rightarrow> char" where
  \<comment> \<open>the case folding of the flag \<open>i\<close> on code units below 256\<close>
  "canon c =
     (let n = (of_char c :: nat)
      in if (97 \<le> n \<and> n \<le> 122) \<or> (224 \<le> n \<and> n \<le> 254 \<and> n \<noteq> 247) then char_of (n - 32) else c)"

fun ci_strip :: "string \<Rightarrow> string \<Rightarrow> string option" where
  \<comment> \<open>a literal matched without regard to case at the head of the input: what follows it\<close>
  "ci_strip [] s = Some s"
| "ci_strip (p # ps) [] = None"
| "ci_strip (p # ps) (c # s) = (if canon p = canon c then ci_strip ps s else None)"

definition skip_colon :: "string \<Rightarrow> string" where
  \<comment> \<open>\<open>:?\<close>\<close>
  "skip_colon s = (case s of [] \<Rightarrow> [] | c # r \<Rightarrow> if c = CHR '':'' then r else c # r)"

definition isAlnumCI :: "char \<Rightarrow> bool" where
  \<comment> \<open>\<open>[A-Z0-9]\<close> under the flag \<open>i\<close>\<close>
  "isAlnumCI c = (isUpperAZ (canon c) \<or> isDigit c)"

definition orderMatch_at :: "string \<Rightarrow> string option" where
  "orderMatch_at s =
     (case ci_strip label_orden s of None \<Rightarrow> None
      | Some r \<Rightarrow>
          let g = takeWhile isDigit (dropWhile isSpace (skip_colon r))
          in if g = [] then None else Some g)"

definition orderMatch :: "string \<Rightarrow> string option" where
  \<comment> \<open>group 1 of \<open>text.match(/N\<degree> de Orden:?\s*(\d+)/i)\<close>\<close>
  "orderMatch text = first_match orderMatch_at text"

definition codeMatch_at :: "string \<Rightarrow> string option" where
  "codeMatch_at s =
     (case ci_strip label_codigo s of None \<Rightarrow> None
      | Some r \<Rightarrow>
          let g = takeWhile isAlnumCI (dropWhile isSpace (skip_colon r))
          in if g = [] then None else Some g)"

definition codeMatch :: "string \<Rightarrow> string option" where
  \<comment> \<open>group 1 of \<open>text.match(/C\<acute>odigo:?\s*([A-Z0-9]+)/i)\<close>\<close>
  "codeMatch text = first_match codeMatch_at text"

text \<open>
  \<open>/S\/\.?\s*([\d.]+)/\<close>: the optional dot is taken first; when nothing matches
  after it, the matcher backtracks and the dot starts the group.
\<close>

definition costMatch_at :: "string \<Rightarrow> string option" where
  "costMatch_at s =
     (case s of c1 # c2 # r \<Rightarrow>
        if c1 = CHR ''S'' \<and> c2 = CHR ''/'' then
          (let with_dot = (case r of [] \<Rightarrow> []
                           | c # r' \<Rightarrow> if c = CHR ''.''
                                        then takeWhile isDigitOrDot (dropWhile isSpace r') else []);
               without_dot = takeWhile isDigitOrDot (dropWhile isSpace r)
           in if with_dot \<noteq> [] then Some with_dot
              else if without_dot \<noteq> [] then Some without_dot
              else None)
        else None
      | _ \<Rightarrow> None)"

definition costMatch :: "string \<Rightarrow> string option" where
  "costMatch text = first_match costMatch_at text"

record scraped =
  orderNumber :: string
  code :: string
  cost :: string

fun order_labels :: "element list \<Rightarrow> element \<Rightarrow> element list list" where
  \<comment> \<open>for every label element, in document order, its ancestors from the parent up\<close>
  "order_labels up (Element cls txt inner kids) =
     (if kids = [] \<and> txt \<noteq> [] \<and> str_includes txt label_orden then [up] else [])
     @ concat (map (order_labels (Element cls txt inner kids # up)) kids)"

fun descendants :: "element \<Rightarrow> element list" where
  "descendants (Element cls txt inner kids) = concat (map (\<lambda>k. k # descendants k) kids)"

definition time_deleted :: "element \<Rightarrow> bool" where
  "time_deleted e = (''time-deleted'' \<in> set (classes e))"

definition isDeleted :: "element \<Rightarrow> element list \<Rightarrow> bool" where
  \<comment> \<open>\<open>!!container.closest('.time-deleted') || !!container.querySelector('.time-deleted')\<close>\<close>
  "isDeleted container up =
     ((\<exists>e \<in> set (container # up). time_deleted e) \<or> (\<exists>e \<in> set (descendants container). time_deleted e))"

fun scan :: "nat \<Rightarrow> element list \<Rightarrow> scraped list \<Rightarrow> scraped list" where
  \<comment> \<open>the \<open>while (container && attempts < 6)\<close> loop of one label\<close>
  "scan attempts [] results = results"
| "scan attempts (container # up) results =
     (if attempts < 6 then
        (let text = innerText container
         in if str_includes text label_codigo \<and> str_includes text ''S/'' then
              (case orderMatch text of
                 None \<Rightarrow> results
               | Some ord \<Rightarrow>
                   if \<not> isDeleted container up then
                     (if (\<exists>r \<in> set results. orderNumber r = ord) then results
                      else results @
                        [\<lparr> orderNumber = ord,
                           code = (case codeMatch text of Some g \<Rightarrow> g | None \<Rightarrow> ''N/A''),
                           cost = (case costMatch text of Some g \<Rightarrow> g | None \<Rightarrow> ''0.00'') \<rparr>])
                   else results)
            else scan (attempts + 1) up results)
      else results)"

definition scrape_results :: "element \<Rightarrow> scraped list" where
  \<comment> \<open>the array \<open>results\<close> after \<open>orderLabels.forEach\<close>\<close>
  "scrape_results doc = foldl (\<lambda>results up. scan 0 up results) [] (order_labels [] doc)"

definition scrape :: "element \<Rightarrow> scraped list" where
  "scrape doc =
     (let results = scrape_results doc in if results \<noteq> [] then [last results] else [])"

section \<open>The durable store\<close>

text \<open>
  A row of the table \<open>instances\<close> as the migration declares it, together with the
  column \<open>password\<close> that \<open>_restoreInstance\<close> of the later revision reads from a
  row (no migration under the sources declares that column, and no operation writes
  it). Timestamps are natural numbers.
\<close>

record row =
  row_id :: string
  row_apiKey :: string
  row_username :: "string option"
  row_password :: "string option"
  row_storageState :: "string option"
  row_isActive :: bool
  row_createdAt :: nat
  row_lastUsedAt :: nat

datatype jsval = Str string | Null | Bool bool | Date nat

type_synonym data = "(string \<times> jsval) list"

datatype whereq = ById string | ByApiKey string

fun matches :: "whereq \<Rightarrow> row \<Rightarrow> bool" where
  "matches (ById i) r = (row_id r = i)"
| "matches (ByApiKey k) r = (row_apiKey r = k)"

text \<open>The \<open>data\<close> object of a Prisma write names the columns it sets.\<close>

fun set_field :: "row \<Rightarrow> string \<times> jsval \<Rightarrow> row" where
  "set_field r (f, v) =
     (if f = ''id'' then (case v of Str x \<Rightarrow> r\<lparr>row_id := x\<rparr> | _ \<Rightarrow> r)
      else if f = ''apiKey'' then (case v of Str x \<Rightarrow> r\<lparr>row_apiKey := x\<rparr> | _ \<Rightarrow> r)
      else if f = ''username'' then
        (case v of Str x \<Rightarrow> r\<lparr>row_username := Some x\<rparr> | Null \<Rightarrow> r\<lparr>row_username := None\<rparr> | _ \<Rightarrow> r)
      else if f = ''password'' then
        (case v of Str x \<Rightarrow> r\<lparr>row_password := Some x\<rparr> | Null \<Rightarrow> r\<lparr>row_password := None\<rparr> | _ \<Rightarrow> r)
      else if f = ''storageState'' then
        (case v of Str x \<Rightarrow> r\<lparr>row_storageState := Some x\<rparr>
         | Null \<Rightarrow> r\<lparr>row_storageState := None\<rparr> | _ \<Rightarrow> r)
      else if f = ''isActive'' then (case v of Bool b \<Rightarrow> r\<lparr>row_isActive := b\<rparr> | _ \<Rightarrow> r)
      else if f = ''createdAt'' then (case v of Date t \<Rightarrow> r\<lparr>row_createdAt := t\<rparr> | _ \<Rightarrow> r)
      else if f = ''lastUsedAt'' then (case v of Date t \<Rightarrow> r\<lparr>row_lastUsedAt := t\<rparr> | _ \<Rightarrow> r)
      else r)"

definition apply_data :: "data \<Rightarrow> row \<Rightarrow> row" where
  "apply_data d r = foldl set_field r d"



definition db_update :: "whereq \<Rightarrow> data \<Rightarrow> row list \<Rightarrow> row list option" where
  "db_update w d rows =
     (if (\<exists>x \<in> set rows. matches w x)
      then Some (map (\<lambda>x. if matches w x then apply_data d x else x) rows)
      else None)"

definition db_delete :: "whereq \<Rightarrow> row list \<Rightarrow> row list option" where
  "db_delete w rows =
     (if (\<exists>x \<in> set rows. matches w x) then Some (filter (\<lambda>x. \<not> matches w x) rows) else None)"

definition db_findFirst :: "string \<Rightarrow> row list \<Rightarrow> row option" where
  \<comment> \<open>\<open>db.instance.findFirst({ where: { apiKey } })\<close>\<close>
  "db_findFirst k rows = find (\<lambda>x. row_apiKey x = k) rows"

section \<open>The automation driver and the trace\<close>

text \<open>
  Every call into the browser driver and every write to the store is recorded, in
  order, in a trace. \<open>Driver i a\<close> is the driver call \<open>a\<close> made for the instance
  with id \<open>i\<close> (the empty id for the shared browser).

  \<open>Submit\<close> is the submission of the login form (click on the submit button, or
  Enter when there is none, with the wait for the load state). \<open>FormSteps\<close> stands
  for steps 1 to 6 of \<open>registerShipment\<close> (product type, origin and destination,
  warranty, recipient, billing, sworn declaration), \<open>UploadSteps\<close> for the upload of
  the file of a massive registration up to its confirmation dialog, and
  \<open>FinalizeSteps\<close> for the dialogs between the generated key and the final
  acknowledgement; each fails when one of its driver calls throws. \<open>Click\<close> on the
  key button stands for the click on it or, when it is not visible, on its fallback.
  Selectors and labels are written without their quotation marks and accents.
\<close>

datatype driver_action =
    Launch
  | NewContext "string option"
  | NewPage
  | Route
  | Goto string
  | Reload
  | WaitForSelector string
  | WaitForButton string
  | WaitForText string
  | Fill string string
  | Click string
  | ClickButton string
  | Submit
  | Content
  | InnerText string
  | ClearCookies
  | Evaluate
  | StorageState
  | ContextClose
  | BrowserClose
  | Screenshot
  | FormSteps
  | UploadSteps string
  | FinalizeSteps

datatype event =
    DbCreate data
  | DbUpdate whereq data
  | DbDelete whereq
  | Driver string driver_action

fun is_fill :: "event \<Rightarrow> bool" where
  \<comment> \<open>the events in which text is typed into an input\<close>
  "is_fill (Driver i (Fill sel t)) = True"
| "is_fill ev = False"

text \<open>
  The environment answers the driver: whether a call throws (\<open>Some\<close> of the
  error message) and what the page shows, both as functions of the trace so far,
  so that the same call may be answered differently each time. It also supplies
  the clock and the identifiers that \<open>uuidv4\<close> draws.
\<close>

record env =
  env_fails :: "event list \<Rightarrow> string \<Rightarrow> driver_action \<Rightarrow> string option"
  env_url :: "event list \<Rightarrow> string \<Rightarrow> string"
  env_content :: "event list \<Rightarrow> string \<Rightarrow> string"
  env_title :: "event list \<Rightarrow> string \<Rightarrow> string"
  env_storage :: "event list \<Rightarrow> string \<Rightarrow> string"
  env_dom :: "event list \<Rightarrow> string \<Rightarrow> element"
  env_now :: "event list \<Rightarrow> nat"
  env_uuid :: "event list \<Rightarrow> string \<times> string"

section \<open>The tenant manager\<close>

text \<open>
  An entry of the map \<open>instances\<close> (an instance, in the words of the source).
  The fields \<open>context\<close> and \<open>page\<close> of the
  source are handles into the driver; what they show is asked of the environment
  under the id of the instance. \<open>own_browser\<close> tells whether the entry has the field
  \<open>browser\<close>, which only \<open>createInstance\<close> of the earlier revision sets.
\<close>

record tenant =
  inst_id :: string
  inst_apiKey :: string
  own_browser :: bool
  inst_createdAt :: nat
  username :: "string option"
  lastShipmentTime :: "nat option"

record manager =
  instances :: "string \<rightharpoonup> tenant"
  store :: "row list"
  initialized :: bool
  browser :: bool
  trace :: "event list"

text \<open>
  The model follows the revision of the manager that has \<open>getOrRestoreInstance\<close> and
  \<open>registerMassiveShipment\<close>. Its flag \<open>isShuttingDown\<close> is assigned in the
  constructor only (to \<open>false\<close>), so the guards that read it are never taken and the
  model leaves them out. The fixed sleeps (\<open>_wait\<close>) and the console output have no
  counterpart. A thrown error is \<open>Inl\<close> of its message.
\<close>

definition perform :: "env \<Rightarrow> string \<Rightarrow> driver_action \<Rightarrow> manager \<Rightarrow> string option \<times> manager" where
  "perform e i a m = (env_fails e (trace m) i a, m\<lparr>trace := trace m @ [Driver i a]\<rparr>)"

fun perform_all :: "env \<Rightarrow> string \<Rightarrow> driver_action list \<Rightarrow> manager \<Rightarrow> string option \<times> manager" where
  \<comment> \<open>awaited calls in sequence: the first that throws ends the sequence\<close>
  "perform_all e i [] m = (None, m)"
| "perform_all e i (a # as) m =
     (case perform e i a m of
        (Some err, m1) \<Rightarrow> (Some err, m1)
      | (None, m1) \<Rightarrow> perform_all e i as m1)"


definition update_m :: "whereq \<Rightarrow> data \<Rightarrow> manager \<Rightarrow> bool \<times> manager" where
  "update_m w d m =
     (let m1 = m\<lparr>trace := trace m @ [DbUpdate w d]\<rparr>
      in case db_update w d (store m) of
           None \<Rightarrow> (False, m1)
         | Some rows \<Rightarrow> (True, m1\<lparr>store := rows\<rparr>))"

definition delete_m :: "whereq \<Rightarrow> manager \<Rightarrow> bool \<times> manager" where
  "delete_m w m =
     (let m1 = m\<lparr>trace := trace m @ [DbDelete w]\<rparr>
      in case db_delete w (store m) of
           None \<Rightarrow> (False, m1)
         | Some rows \<Rightarrow> (True, m1\<lparr>store := rows\<rparr>))"

definition p2025 :: string where
  "p2025 = ''P2025''"

definition getInstance :: "string \<Rightarrow> manager \<Rightarrow> tenant option" where
  "getInstance apiKey m = instances m apiKey"

definition saveStorageState :: "env \<Rightarrow> string \<Rightarrow> manager \<Rightarrow> manager" where
  \<comment> \<open>\<open>_saveStorageState\<close>: both failures are caught and logged\<close>
  "saveStorageState e apiKey m =
     (case getInstance apiKey m of
        None \<Rightarrow> m
      | Some inst \<Rightarrow>
          (case perform e (inst_id inst) StorageState m of
             (Some err, m1) \<Rightarrow> m1
           | (None, m1) \<Rightarrow>
               snd (update_m (ByApiKey apiKey)
                      [(''storageState'', Str (env_storage e (trace m1) (inst_id inst))),
                       (''lastUsedAt'', Date (env_now e (trace m1)))] m1)))"

text \<open>The result of a login: the fields \<open>success\<close>, \<open>message\<close> and \<open>url\<close>.\<close>

record login_result =
  login_success :: bool
  login_message :: "string option"
  login_url :: "string option"

definition attempt_actions :: "int \<Rightarrow> string \<Rightarrow> string \<Rightarrow> driver_action list" where
  \<comment> \<open>the driver calls of one attempt, up to the submission\<close>
  "attempt_actions attempt user password =
     (if attempt > 1 then [Reload] else []) @
     [WaitForSelector ''input[type=text], input[type=email]'',
      Fill ''input[type=email]'' user,
      Fill ''input[type=password]'' password,
      Submit]"

function attemptLogin ::
    "env \<Rightarrow> string \<Rightarrow> string \<Rightarrow> string \<Rightarrow> int \<Rightarrow> int \<Rightarrow> manager \<Rightarrow> login_result \<times> manager" where
  \<comment> \<open>\<open>_attemptLogin\<close>: the loop \<open>for (attempt = 1; attempt <= retries; attempt++)\<close>,
      \<open>attempt\<close> being the loop variable\<close>
  "attemptLogin e i user password retries attempt m =
     (if attempt \<le> retries then
        (case perform_all e i (attempt_actions attempt user password) m of
           (Some err, m1) \<Rightarrow>
             if attempt = retries
             then (\<lparr>login_success = False, login_message = Some err, login_url = None\<rparr>, m1)
             else attemptLogin e i user password retries (attempt + 1) m1
         | (None, m1) \<Rightarrow>
             let currentUrl = env_url e (trace m1) i
             in if \<not> str_includes currentUrl ''login''
                then (\<lparr>login_success = True, login_message = None, login_url = Some currentUrl\<rparr>, m1)
                else
                  (case perform e i Content m1 of
                     (Some err, m2) \<Rightarrow>
                       if attempt = retries
                       then (\<lparr>login_success = False, login_message = Some err, login_url = None\<rparr>, m2)
                       else attemptLogin e i user password retries (attempt + 1) m2
                   | (None, m2) \<Rightarrow>
                       let content = env_content e (trace m2) i
                       in if str_includes content ''incorrectas'' \<or> str_includes content ''error''
                          then
                            (if attempt < retries
                             then attemptLogin e i user password retries (attempt + 1) m2
                             else (\<lparr>login_success = False,
                                     login_message = Some ''Invalid credentials'',
                                     login_url = None\<rparr>, m2))
                          else attemptLogin e i user password retries (attempt + 1) m2))
      else (\<lparr>login_success = False, login_message = Some ''Login failed'', login_url = None\<rparr>, m))"
  by pat_completeness auto
termination
  by (relation "measure (\<lambda>(e, i, user, password, retries, attempt, m). nat (retries + 1 - attempt))") auto

definition open_context :: "env \<Rightarrow> row \<Rightarrow> manager \<Rightarrow> string option \<times> manager" where
  \<comment> \<open>the context of a restored instance, seeded with the stored state when there is one
      and it can be used\<close>
  "open_context e r m =
     (if truthy (row_storageState r) then
        (case perform e (row_id r) (NewContext (row_storageState r)) m of
           (Some err, m1) \<Rightarrow> perform e (row_id r) (NewContext None) m1
         | (None, m1) \<Rightarrow> (None, m1))
      else perform e (row_id r) (NewContext None) m)"

definition restoreCore :: "env \<Rightarrow> row \<Rightarrow> manager \<Rightarrow> (string + bool \<times> string option) \<times> manager" where
  \<comment> \<open>\<open>_restoreInstance\<close> after its first line\<close>
  "restoreCore e r m =
     (if \<not> browser m then (Inl ''Cannot read properties of null'', m)
      else
        (case open_context e r m of
           (Some err, m1) \<Rightarrow> (Inl err, m1)
         | (None, m1) \<Rightarrow>
             (case perform_all e (row_id r) [NewPage, Route, Goto ''https://pro.shalom.pe''] m1 of
                (Some err, m2) \<Rightarrow> (Inl err, m2)
              | (None, m2) \<Rightarrow>
                  let currentUrl = env_url e (trace m2) (row_id r);
                      (isLoggedIn, m3) =
                        (if str_includes currentUrl ''login'' \<and> truthy (row_username r)
                            \<and> truthy (row_password r)
                         then
                           (case attemptLogin e (row_id r) (case row_username r of Some u \<Rightarrow> u | None \<Rightarrow> [])
                                   (case row_password r of Some p \<Rightarrow> p | None \<Rightarrow> []) 3 1 m2 of
                              (res, m') \<Rightarrow> (login_success res, m'))
                         else (\<not> str_includes currentUrl ''login'', m2));
                      m4 = m3\<lparr>instances := (instances m3)(row_apiKey r \<mapsto>
                             \<lparr> inst_id = row_id r, inst_apiKey = row_apiKey r,
                               own_browser = False, inst_createdAt = row_createdAt r,
                               username = (if isLoggedIn then row_username r else None),
                               lastShipmentTime = None \<rparr>)\<rparr>
                  in (case update_m (ById (row_id r)) [(''lastUsedAt'', Date (env_now e (trace m4)))] m4 of
                        (False, m5) \<Rightarrow> (Inl p2025, m5)
                      | (True, m5) \<Rightarrow>
                          (Inr (isLoggedIn, row_username r),
                           if isLoggedIn then saveStorageState e (row_apiKey r) m5 else m5)))))"

definition launch_if_needed :: "env \<Rightarrow> manager \<Rightarrow> string option \<times> manager" where
  "launch_if_needed e m =
     (if \<not> browser m
      then (case perform e [] Launch m of
              (Some err, m1) \<Rightarrow> (Some err, m1)
            | (None, m1) \<Rightarrow> (None, m1\<lparr>browser := True\<rparr>))
      else (None, m))"

definition initialize :: "env \<Rightarrow> manager \<Rightarrow> manager" where
  \<comment> \<open>a failed launch is caught; so is every failed restore\<close>
  "initialize e m =
     (if initialized m then m
      else
        (case launch_if_needed e m of
           (Some err, m1) \<Rightarrow> m1\<lparr>initialized := True\<rparr>
         | (None, m1) \<Rightarrow>
             (foldl (\<lambda>m' r. snd (restoreCore e r m')) m1 (store m1))\<lparr>initialized := True\<rparr>))"

definition restoreInstance :: "env \<Rightarrow> row \<Rightarrow> manager \<Rightarrow> (string + bool \<times> string option) \<times> manager" where
  \<comment> \<open>\<open>_restoreInstance\<close>\<close>
  "restoreInstance e r m = restoreCore e r (if \<not> browser m then initialize e m else m)"

definition getOrRestoreInstance :: "env \<Rightarrow> string \<Rightarrow> manager \<Rightarrow> (string + tenant option) \<times> manager" where
  "getOrRestoreInstance e apiKey m =
     (case getInstance apiKey m of
        Some inst \<Rightarrow> (Inr (Some inst), m)
      | None \<Rightarrow>
          (case db_findFirst apiKey (store m) of
             None \<Rightarrow> (Inr None, m)
           | Some dbInstance \<Rightarrow>
               (case restoreInstance e dbInstance m of
                  (Inl err, m1) \<Rightarrow> (Inl err, m1)
                | (Inr x, m1) \<Rightarrow> (Inr (getInstance apiKey m1), m1))))"


record status =
  isLoggedIn :: bool
  status_username :: "string option"
  status_url :: string

definition getStatus :: "env \<Rightarrow> string \<Rightarrow> manager \<Rightarrow> status option \<times> manager" where
  "getStatus e apiKey m =
     (let m1 = initialize e m
      in case getInstance apiKey m1 of
           None \<Rightarrow> (None, m1)
         | Some inst \<Rightarrow>
             let currentUrl = env_url e (trace m1) (inst_id inst);
                 logged = (\<not> str_includes currentUrl ''login'' \<and> username inst \<noteq> None)
             in (Some \<lparr> isLoggedIn = logged,
                        status_username = (if logged then username inst else None),
                        status_url = currentUrl \<rparr>, m1))"

definition bind_username :: "string \<Rightarrow> tenant \<Rightarrow> string \<Rightarrow> manager \<Rightarrow> bool \<times> manager" where
  \<comment> \<open>\<open>instance.username = username\<close> and the update of the row\<close>
  "bind_username apiKey inst user m =
     update_m (ByApiKey apiKey) [(''username'', Str user)]
       (m\<lparr>instances := (instances m)(apiKey \<mapsto> inst\<lparr>username := Some user\<rparr>)\<rparr>)"

definition login ::
    "env \<Rightarrow> string \<Rightarrow> string \<Rightarrow> string \<Rightarrow> int \<Rightarrow> manager \<Rightarrow> (string + login_result) \<times> manager" where
  "login e apiKey user password retries m =
     (case getOrRestoreInstance e apiKey (initialize e m) of
        (Inl err, m2) \<Rightarrow> (Inl err, m2)
      | (Inr None, m2) \<Rightarrow> (Inl ''Instance not found'', m2)
      | (Inr (Some inst), m2) \<Rightarrow>
          if \<not> str_includes (env_url e (trace m2) (inst_id inst)) ''login'' then
            (case (if \<not> truthy (username inst) then bind_username apiKey inst user m2
                   else (True, m2)) of
               (False, m4) \<Rightarrow> (Inl p2025, m4)
             | (True, m4) \<Rightarrow>
                 let m5 = saveStorageState e apiKey m4
                 in (Inr \<lparr> login_success = True, login_message = Some ''Already logged in'',
                            login_url = Some (env_url e (trace m5) (inst_id inst)) \<rparr>, m5))
          else
            (case attemptLogin e (inst_id inst) user password retries 1 m2 of
               (result, m3) \<Rightarrow>
                 if login_success result then
                   (case bind_username apiKey inst user m3 of
                      (False, m5) \<Rightarrow> (Inl p2025, m5)
                    | (True, m5) \<Rightarrow>
                        (Inr \<lparr> login_success = True, login_message = Some ''Login successful'',
                                login_url = login_url result \<rparr>,
                         saveStorageState e apiKey m5))
                 else (Inr result, m3)))"

definition logout :: "env \<Rightarrow> string \<Rightarrow> manager \<Rightarrow> (string + bool \<times> string) \<times> manager" where
  "logout e apiKey m =
     (let m1 = initialize e m
      in case getInstance apiKey m1 of
           None \<Rightarrow> (Inl ''Instance not found'', m1)
         | Some inst \<Rightarrow>
             (case perform_all e (inst_id inst) [ClearCookies, Evaluate] m1 of
                (Some err, m2) \<Rightarrow> (Inl err, m2)
              | (None, m2) \<Rightarrow>
                  (case update_m (ByApiKey apiKey) [(''username'', Null), (''storageState'', Null)]
                          (m2\<lparr>instances := (instances m2)(apiKey \<mapsto> inst\<lparr>username := None\<rparr>)\<rparr>) of
                     (False, m4) \<Rightarrow> (Inl p2025, m4)
                   | (True, m4) \<Rightarrow>
                       (case perform e (inst_id inst) (Goto ''https://pro.shalom.pe/login'') m4 of
                          (Some err, m5) \<Rightarrow> (Inl err, m5)
                        | (None, m5) \<Rightarrow> (Inr (True, ''Logged out''), m5)))))"

definition closeInstance :: "env \<Rightarrow> string \<Rightarrow> manager \<Rightarrow> bool \<times> manager" where
  \<comment> \<open>\<open>instance.context\<close> is always set; an error of \<open>context.close()\<close> is caught; so is the
      one of \<open>delete\<close>, which gives \<open>false\<close>\<close>
  "closeInstance e apiKey m =
     (let m1 = initialize e m;
          m2 = (case getInstance apiKey m1 of
                  None \<Rightarrow> m1
                | Some inst \<Rightarrow>
                    (snd (perform e (inst_id inst) ContextClose m1))
                      \<lparr>instances := (instances m1)(apiKey := None)\<rparr>)
      in delete_m (ByApiKey apiKey) m2)"

text \<open>
  The body of a shipment request. \<open>None\<close> is an absent field. The flags
  \<open>warranty\<close> and \<open>secureBilling\<close> are not read by this revision of the workflow.
\<close>

record recipient =
  documentNumber :: "string option"
  name :: "string option"
  phone :: "string option"

record shipmentData =
  productType :: "string option"
  origin :: "string option"
  destination :: "string option"
  recipient :: "recipient option"
  contentType :: "string option"
  securityCode :: "string option"

definition shipment_code :: "shipmentData \<Rightarrow> string" where
  \<comment> \<open>\<open>const code = shipmentData.securityCode || '5858'\<close>\<close>
  "shipment_code sd = (case securityCode sd of None \<Rightarrow> ''5858'' | Some c \<Rightarrow> if c = [] then ''5858'' else c)"

definition shipment_flow ::
    "env \<Rightarrow> (string \<Rightarrow> 'n) \<Rightarrow> string \<Rightarrow> tenant \<Rightarrow> shipmentData \<Rightarrow> manager
       \<Rightarrow> (string + 'n shipment_result) \<times> manager" where
  \<comment> \<open>the \<open>try\<close> block of \<open>registerShipment\<close>\<close>
  "shipment_flow e pf apiKey inst sd m =
     (let i = inst_id inst; pin = shipment_code sd
      in case perform_all e i
                ([FormSteps, WaitForButton (take 1 pin)] @ map (\<lambda>digit. ClickButton [digit]) pin
                 @ [ClickButton ''Continuar'']) m of
           (Some err, m1) \<Rightarrow> (Inl err, m1)
         | (None, m1) \<Rightarrow>
             (case perform e i Content (snd (perform e i (WaitForText ''Registrado'') m1)) of
                (Some err, m3) \<Rightarrow> (Inl err, m3)
              | (None, m3) \<Rightarrow>
                  let content = env_content e (trace m3) i;
                      (title, m4) =
                        (if str_includes content ''Registrado'' then (None, m3)
                         else (case perform e i (InnerText ''.swal2-title'') m3 of
                                 (Some err, m') \<Rightarrow> (None, m')
                               | (None, m') \<Rightarrow> (Some (env_title e (trace m') i), m')));
                      m5 = m4\<lparr>instances := (instances m4)(apiKey \<mapsto>
                             inst\<lparr>lastShipmentTime := Some (env_now e (trace m4))\<rparr>)\<rparr>
                  in (Inr (getRegistrationResult pf content title), saveStorageState e apiKey m5)))"

definition registerShipment ::
    "env \<Rightarrow> (string \<Rightarrow> 'n) \<Rightarrow> string \<Rightarrow> shipmentData \<Rightarrow> manager
       \<Rightarrow> (string + 'n shipment_result) \<times> manager" where
  "registerShipment e pf apiKey sd m =
     (case getOrRestoreInstance e apiKey (initialize e m) of
        (Inl err, m2) \<Rightarrow> (Inl err, m2)
      | (Inr None, m2) \<Rightarrow> (Inl ''Instance not found'', m2)
      | (Inr (Some inst), m2) \<Rightarrow>
          (case shipment_flow e pf apiKey inst sd m2 of
             (Inl err, m3) \<Rightarrow>
               (Inr \<lparr> success = False, registrationNumber = None, price = None, message = None,
                       error = Some err, details = Some ''Registration failed'' \<rparr>,
                snd (perform e (inst_id inst) Screenshot m3))
           | (Inr result, m3) \<Rightarrow> (Inr result, m3)))"

record massive_result =
  massive_success :: bool
  massive_message :: string
  shipments :: "scraped list"

definition massive_code :: "string option \<Rightarrow> string" where
  \<comment> \<open>the default parameter \<open>securityCode = '8002'\<close> applies to \<open>undefined\<close> only\<close>
  "massive_code secCode = (case secCode of None \<Rightarrow> ''8002'' | Some c \<Rightarrow> c)"

fun fill_code :: "env \<Rightarrow> string \<Rightarrow> string \<Rightarrow> (nat \<times> string) list \<Rightarrow> manager \<Rightarrow> string option \<times> manager" where
  \<comment> \<open>\<open>await page.locator(sel).fill(code[n])\<close>, \<open>pin\<close> being the \<open>code\<close> of the source, for each pair \<open>(n, sel)\<close>; \<open>fill\<close> rejects
      \<open>undefined\<close> before it reaches the page\<close>
  "fill_code e i pin [] m = (None, m)"
| "fill_code e i pin ((n, sel) # rest) m =
     (case charAt pin n of
        None \<Rightarrow> (Some ''value: expected string, got undefined'', m)
      | Some c \<Rightarrow>
          (case perform e i (Fill sel [c]) m of
             (Some err, m1) \<Rightarrow> (Some err, m1)
           | (None, m1) \<Rightarrow> fill_code e i pin rest m1))"

definition keyCode_inputs :: "(nat \<times> string) list" where
  "keyCode_inputs = [(0, ''.input-keyCode-1''), (1, ''.input-keyCode-2''),
                     (2, ''.input-keyCode-3''), (3, ''.input-keyCode-4'')]"

definition massive_flow ::
    "env \<Rightarrow> string \<Rightarrow> tenant \<Rightarrow> string option \<Rightarrow> string option \<Rightarrow> manager
       \<Rightarrow> (string + massive_result) \<times> manager" where
  \<comment> \<open>the \<open>try\<close> block of \<open>registerMassiveShipment\<close>\<close>
  "massive_flow e apiKey inst filePath secCode m =
     (let i = inst_id inst
      in case perform_all e i
                [UploadSteps (case filePath of Some f \<Rightarrow> f | None \<Rightarrow> []),
                 Click ''button[title=Clave de seguridad masiva]'', ClickButton ''Si''] m of
           (Some err, m1) \<Rightarrow> (Inl err, m1)
         | (None, m1) \<Rightarrow>
             (case fill_code e i (massive_code secCode) keyCode_inputs m1 of
                (Some err, m2) \<Rightarrow> (Inl err, m2)
              | (None, m2) \<Rightarrow>
                  (case perform_all e i
                          [FinalizeSteps, Goto ''https://pro.shalom.pe/#/solicitud/pendientes''] m2 of
                     (Some err, m3) \<Rightarrow> (Inl err, m3)
                   | (None, m3) \<Rightarrow>
                       (case perform e i Evaluate
                               (snd (perform e i (WaitForSelector ''text=N de Orden'') m3)) of
                          (Some err, m5) \<Rightarrow> (Inl err, m5)
                        | (None, m5) \<Rightarrow>
                            (Inr \<lparr> massive_success = True,
                                   massive_message = ''Massive shipment registered successfully'',
                                   shipments = scrape (env_dom e (trace m5) i) \<rparr>,
                             saveStorageState e apiKey
                               (m5\<lparr>instances := (instances m5)(apiKey \<mapsto>
                                   inst\<lparr>lastShipmentTime := Some (env_now e (trace m5))\<rparr>)\<rparr>))))))"

definition registerMassiveShipment ::
    "env \<Rightarrow> string \<Rightarrow> string option \<Rightarrow> string option \<Rightarrow> manager
       \<Rightarrow> (string + massive_result) \<times> manager" where
  "registerMassiveShipment e apiKey filePath secCode m =
     (case getOrRestoreInstance e apiKey (initialize e m) of
        (Inl err, m2) \<Rightarrow> (Inl err, m2)
      | (Inr None, m2) \<Rightarrow> (Inl ''Instance not found'', m2)
      | (Inr (Some inst), m2) \<Rightarrow>
          (case massive_flow e apiKey inst filePath secCode m2 of
             (Inl err, m3) \<Rightarrow> (Inl err, snd (perform e (inst_id inst) Screenshot m3))
           | (Inr result, m3) \<Rightarrow> (Inr result, m3)))"

section \<open>The request handlers\<close>

text \<open>
  A handler runs after the hook \<open>checkApiKey\<close> has resolved the instance of the
  request; \<open>apiKey\<close> is \<open>request.instance.apiKey\<close>. A reply is its status code with
  either an error object (\<open>error\<close>, \<open>details\<close>) or the result of the manager.
\<close>

datatype 'n http_reply =
    ErrorReply nat string "string option"
  | ShipmentReply nat "'n shipment_result"
  | MassiveReply nat massive_result

definition post_shipments ::
    "env \<Rightarrow> (string \<Rightarrow> 'n) \<Rightarrow> string \<Rightarrow> shipmentData option \<Rightarrow> manager \<Rightarrow> 'n http_reply \<times> manager" where
  \<comment> \<open>\<open>POST /shipments\<close>\<close>
  "post_shipments e pf apiKey body m =
     (case body of
        None \<Rightarrow> (ErrorReply 400 ''Request body is required'' None, m)
      | Some sd \<Rightarrow>
          if \<not> truthy (productType sd) then
            (ErrorReply 400 ''productType is required (sobre, xxs, xs, s, m, l, or custom)'' None, m)
          else if \<not> truthy (origin sd) then
            (ErrorReply 400 ''origin is required (search text for origin location)'' None, m)
          else if \<not> truthy (destination sd) then
            (ErrorReply 400 ''destination is required (search text for destination location)'' None, m)
          else if (case recipient sd of None \<Rightarrow> True | Some rc \<Rightarrow> \<not> truthy (documentNumber rc)) then
            (ErrorReply 400 ''recipient.documentNumber is required'' None, m)
          else
            (case shipments_check (securityCode sd) of
               Some err \<Rightarrow> (ErrorReply 400 err None, m)
             | None \<Rightarrow>
                 (case registerShipment e pf apiKey sd m of
                    (Inl err, m1) \<Rightarrow> (ErrorReply 500 ''Shipment registration failed'' (Some err), m1)
                  | (Inr result, m1) \<Rightarrow>
                      if \<not> success result then (ShipmentReply 400 result, m1)
                      else (ShipmentReply 200 result, m1))))"

text \<open>
  The body of \<open>POST /register\<close>. The rows of \<open>shipments\<close> only feed the generated
  spreadsheet, whose generation is taken to succeed; \<open>generated\<close> is the path
  \<open>generateMassiveShipmentExcel\<close> returns and \<open>debug\<close> the setting \<open>DEBUG === 'true'\<close>
  of the process.
\<close>

record massive_body =
  body_filePath :: "string option"
  body_shipments :: "string list option"
  body_securityCode :: "string option"

definition generic_error :: string where
  "generic_error = ''Ocurri'' @ [CHR 0xF3] @ '' un error. Por favor intente nuevamente.''"

definition post_register ::
    "env \<Rightarrow> string \<Rightarrow> bool \<Rightarrow> string \<Rightarrow> massive_body \<Rightarrow> manager \<Rightarrow> 'n http_reply \<times> manager" where
  "post_register e generated debug apiKey body m =
     (case register_check (body_securityCode body) of
        Some err \<Rightarrow> (ErrorReply 400 err None, m)
      | None \<Rightarrow>
          if \<not> truthy (body_filePath body) \<and> body_shipments body = None then
            (ErrorReply 400 ''Either filePath or shipments must be provided'' None, m)
          else
            (case registerMassiveShipment e apiKey
                    (case body_shipments body of Some (x # xs) \<Rightarrow> Some generated
                     | _ \<Rightarrow> body_filePath body)
                    (body_securityCode body) m of
               (Inl err, m1) \<Rightarrow> (ErrorReply 500 (if debug then err else generic_error) None, m1)
             | (Inr result, m1) \<Rightarrow> (MassiveReply 200 result, m1)))"

section \<open>The earlier revision of the manager\<close>






section \<open>Observations on the trace\<close>

fun write_fields :: "event \<Rightarrow> string list" where
  \<comment> \<open>the columns that a write to the store names\<close>
  "write_fields (DbCreate d) = map fst d"
| "write_fields (DbUpdate w d) = map fst d"
| "write_fields ev = []"

definition claimed_fields :: "string list" where
  \<comment> \<open>id, credential key, username, cached auth state and the two timestamps\<close>
  "claimed_fields = [''id'', ''apiKey'', ''username'', ''storageState'', ''createdAt'', ''lastUsedAt'']"

definition stored_fields :: "string list" where
  "stored_fields = claimed_fields @ [''isActive'']"

definition writes_within :: "string list \<Rightarrow> manager \<Rightarrow> bool" where
  "writes_within fs m = (\<forall>ev \<in> set (trace m). set (write_fields ev) \<subseteq> set fs)"

definition no_password :: "manager \<Rightarrow> bool" where
  \<comment> \<open>no write so far names the column \<open>password\<close> and no row holds one\<close>
  "no_password m =
     ((\<forall>ev \<in> set (trace m). ''password'' \<notin> set (write_fields ev)) \<and>
      (\<forall>r \<in> set (store m). row_password r = None))"

definition store_inv :: "manager \<Rightarrow> bool" where
  \<comment> \<open>every write so far names stored columns only, none of them \<open>password\<close>, and no row
      holds a password\<close>
  "store_inv m = (writes_within stored_fields m \<and> no_password m)"




definition driver_only :: "string \<Rightarrow> manager \<Rightarrow> manager \<Rightarrow> bool" where
  \<comment> \<open>the second state is the first one after some driver calls for the instance \<open>i\<close>\<close>
  "driver_only i m m' = (\<exists>as. m' = m\<lparr>trace := trace m @ map (Driver i) as\<rparr>)"

definition absent :: "string \<Rightarrow> manager \<Rightarrow> bool" where
  \<comment> \<open>no session, live or durable, exists for the key\<close>
  "absent k m = (instances m k = None \<and> (\<forall>r \<in> set (store m). row_apiKey r \<noteq> k))"


section \<open>Example states\<close>

text \<open>
  An environment in which no driver call throws and the page stays on the home view
  after a registration, one in which the page stays on the login view and shows the
  invalid-credentials text, one in which every driver call times out, and a manager
  that holds one live instance with its row.
\<close>

definition home_env :: env where
  "home_env =
     \<lparr> env_fails = (\<lambda>tr i a. None),
       env_url = (\<lambda>tr i. ''https://pro.shalom.pe/#/home''),
       env_content = (\<lambda>tr i. ''<b>Registrado</b> A12 - 345 S/ 8.50''),
       env_title = (\<lambda>tr i. []),
       env_storage = (\<lambda>tr i. ''{cookies}''),
       env_dom = (\<lambda>tr i. Element [] [] [] []),
       env_now = (\<lambda>tr. 7),
       env_uuid = (\<lambda>tr. (''key-2'', ''id-2'')) \<rparr>"



definition tenant1 :: tenant where
  "tenant1 = \<lparr> inst_id = ''id-1'', inst_apiKey = ''key-1'', own_browser = False,
               inst_createdAt = 1, username = None, lastShipmentTime = None \<rparr>"

definition row1 :: row where
  "row1 = \<lparr> row_id = ''id-1'', row_apiKey = ''key-1'', row_username = None, row_password = None,
            row_storageState = None, row_isActive = True, row_createdAt = 1, row_lastUsedAt = 1 \<rparr>"

definition manager1 :: manager where
  "manager1 = \<lparr> instances = [''key-1'' \<mapsto> tenant1], store = [row1], initialized = True,
                browser = True, trace = [] \<rparr>"


definition leaf :: "string \<Rightarrow> element" where
  "leaf t = Element [] t t []"

definition entry_card :: "string list \<Rightarrow> string \<Rightarrow> string \<Rightarrow> string \<Rightarrow> element" where
  \<comment> \<open>a card of the pending view: the order label, the code and the cost\<close>
  "entry_card cls ord cd cst =
     Element cls [] (label_orden @ '': '' @ ord @ '' '' @ label_codigo @ '': '' @ cd @ '' S/ '' @ cst)
       [Element [] [] (label_orden @ '': '' @ ord) [leaf (label_orden @ '': '' @ ord)], leaf cd]"

definition pending_doc :: element where
  "pending_doc =
     Element [] [] []
       [entry_card [] ''101'' ''AB1'' ''10.00'',
        entry_card [''card'', ''time-deleted''] ''102'' ''AB2'' ''11.00'']"

section \<open>Verification: the security-code checks\<close>

lemma char_eq_dv: "(c = d) = (dv c = dv d)"
  by (simp add: dv_def)

lemma isDigit_dv: "isDigit c \<longleftrightarrow> 48 \<le> dv c \<and> dv c \<le> 57"
proof
  assume "isDigit c"
  then show "48 \<le> dv c \<and> dv c \<le> 57"
    by (auto simp: isDigit_def dv_def)
next
  assume "48 \<le> dv c \<and> dv c \<le> 57"
  then have "dv c \<in> {48, 49, 50, 51, 52, 53, 54, 55, 56, 57}"
    by simp arith
  then have "dv c \<in> dv ` set ''0123456789''"
    by (simp add: dv_def)
  then obtain d where "d \<in> set ''0123456789''" "dv c = dv d"
    by blast
  then show "isDigit c"
    using char_eq_dv isDigit_def by simp
qed

lemma parseInt_dv: "isDigit c \<Longrightarrow> parseInt (Some c) = Some (int (dv c) - 48)"
  by (simp add: parseInt_def dv_def)

lemma isConsecutive_dv:
  assumes "isDigit a" "isDigit b" "isDigit c" "isDigit d"
  shows "isConsecutive [a, b, c, d] \<longleftrightarrow>
           (dv b = dv a + 1 \<and> dv c = dv b + 1 \<and> dv d = dv c + 1) \<or>
           (dv b + 1 = dv a \<and> dv c + 1 = dv b \<and> dv d + 1 = dv c)"
  using assms
  by (simp add: isConsecutive_def charAt_def parseInt_dv num_eq_off_def) linarith

lemma run4_dv:
  "run4 [a, b, c, d] \<longleftrightarrow>
     (dv a = 48 \<and> dv b = 49 \<and> dv c = 50 \<and> dv d = 51) \<or>
     (dv a = 49 \<and> dv b = 50 \<and> dv c = 51 \<and> dv d = 52) \<or>
     (dv a = 50 \<and> dv b = 51 \<and> dv c = 52 \<and> dv d = 53) \<or>
     (dv a = 51 \<and> dv b = 52 \<and> dv c = 53 \<and> dv d = 54) \<or>
     (dv a = 52 \<and> dv b = 53 \<and> dv c = 54 \<and> dv d = 55) \<or>
     (dv a = 53 \<and> dv b = 54 \<and> dv c = 55 \<and> dv d = 56) \<or>
     (dv a = 54 \<and> dv b = 55 \<and> dv c = 56 \<and> dv d = 57) \<or>
     (dv a = 57 \<and> dv b = 56 \<and> dv c = 55 \<and> dv d = 54) \<or>
     (dv a = 56 \<and> dv b = 55 \<and> dv c = 54 \<and> dv d = 53) \<or>
     (dv a = 55 \<and> dv b = 54 \<and> dv c = 53 \<and> dv d = 52) \<or>
     (dv a = 54 \<and> dv b = 53 \<and> dv c = 52 \<and> dv d = 51) \<or>
     (dv a = 53 \<and> dv b = 52 \<and> dv c = 51 \<and> dv d = 50) \<or>
     (dv a = 52 \<and> dv b = 51 \<and> dv c = 50 \<and> dv d = 49) \<or>
     (dv a = 51 \<and> dv b = 50 \<and> dv c = 49 \<and> dv d = 48)"
  unfolding run4_def
  by (simp add: char_eq_dv[of a] char_eq_dv[of b] char_eq_dv[of c] char_eq_dv[of d])
     (simp add: dv_def)

lemma isConsecutive_run4_digits:
  assumes "isDigit a" "isDigit b" "isDigit c" "isDigit d"
  shows "isConsecutive [a, b, c, d] \<longleftrightarrow> run4 [a, b, c, d]"
proof -
  have ten: "dv a = 48 \<or> dv a = 49 \<or> dv a = 50 \<or> dv a = 51 \<or> dv a = 52 \<or> dv a = 53 \<or>
             dv a = 54 \<or> dv a = 55 \<or> dv a = 56 \<or> dv a = 57"
    using assms(1) unfolding isDigit_dv by arith
  have bd: "dv d \<le> 57" "48 \<le> dv d"
    using assms(4) unfolding isDigit_dv by simp_all
  show ?thesis
    unfolding isConsecutive_dv[OF assms] run4_dv
    using ten bd by (elim disjE) (simp_all, arith+)
qed

lemma length4: "length pin = 4 \<Longrightarrow> \<exists>a b c d. pin = [a, b, c, d]"
  by (auto simp: length_Suc_conv numeral_eq_Suc)

lemma isConsecutive_run4: "test_4digits pin \<Longrightarrow> isConsecutive pin \<longleftrightarrow> run4 pin"
  using length4[of pin] isConsecutive_run4_digits
  by (auto simp: test_4digits_def)

lemma run4_length: "run4 pin \<Longrightarrow> length pin = 4"
  unfolding run4_def by auto

lemma run4_includes4:
  "run4 [a, b, c, d] \<longleftrightarrow>
     str_includes ''0123456789'' [a, b, c, d] \<or> str_includes ''9876543210'' [a, b, c, d]"
  unfolding run4_def by simp

lemma run4_includes:
  "run4 pin \<longleftrightarrow>
     length pin = 4 \<and> (str_includes ''0123456789'' pin \<or> str_includes ''9876543210'' pin)"
proof (cases "length pin = 4")
  case True
  then obtain a b c d where "pin = [a, b, c, d]"
    using length4 by blast
  then show ?thesis
    using run4_includes4 by simp
next
  case False
  then show ?thesis
    using run4_length by blast
qed

text \<open>
  \<open>POST /shipments\<close> lets a supplied code through exactly when it is four digits
  that are none of the fourteen runs.
\<close>

lemma shipments_check_iff:
  "pin \<noteq> [] \<Longrightarrow> shipments_check (Some pin) = None \<longleftrightarrow> test_4digits pin \<and> \<not> run4 pin"
  using isConsecutive_run4[of pin] by (auto simp: shipments_check_def truthy_def)

text \<open>
  \<open>POST /register\<close> stops a supplied code exactly when it is one of the fourteen
  runs: it has no test that the code is four digits.
\<close>

lemma register_check_iff: "pin \<noteq> [] \<Longrightarrow> register_check (Some pin) = None \<longleftrightarrow> \<not> run4 pin"
  by (auto simp: register_check_def truthy_def run4_includes Let_def)

lemma checks_agree_on_4digits:
  "test_4digits pin \<Longrightarrow> (register_check (Some pin) = None) = (shipments_check (Some pin) = None)"
  using shipments_check_iff[of pin] register_check_iff[of pin]
  by (cases "pin = []") (auto simp: test_4digits_def)

section \<open>Verification: result extraction\<close>










section \<open>Verification: the scrape of pending shipments\<close>

lemma scan_acc:
  "scan n up results =
     (case scan n up [] of [] \<Rightarrow> results
      | e # _ \<Rightarrow> if (\<exists>r \<in> set results. orderNumber r = orderNumber e) then results
                 else results @ [e])"
  by (induction n up results rule: scan.induct) (auto simp: Let_def split: option.splits)

lemma scan_single: "scan n up [] = [] \<or> (\<exists>e. scan n up [] = [e])"
  by (induction n up "[] :: scraped list" rule: scan.induct)
     (auto simp: Let_def split: option.splits)

text \<open>The entry a label yields comes from a container that is not marked deleted.\<close>

lemma scan_entry:
  "scan n up [] = [e] \<Longrightarrow>
     \<exists>k. k < length up \<and> n + k < 6 \<and> \<not> isDeleted (up ! k) (drop (Suc k) up) \<and>
         str_includes (innerText (up ! k)) label_codigo \<and>
         str_includes (innerText (up ! k)) ''S/'' \<and>
         orderMatch (innerText (up ! k)) = Some (orderNumber e)"
proof (induction n up "[] :: scraped list" rule: scan.induct)
  case (1 attempts)
  then show ?case by simp
next
  case (2 attempts container up)
  show ?case
  proof (cases "attempts < 6 \<and> \<not> (str_includes (innerText container) label_codigo \<and>
                  str_includes (innerText container) ''S/'')")
    case True
    with 2 obtain k where "k < length up" "Suc attempts + k < 6"
        "\<not> isDeleted (up ! k) (drop (Suc k) up)"
        "str_includes (innerText (up ! k)) label_codigo"
        "str_includes (innerText (up ! k)) ''S/''"
        "orderMatch (innerText (up ! k)) = Some (orderNumber e)"
      by (auto simp: Let_def)
    then show ?thesis
      by (intro exI[of _ "Suc k"]) auto
  next
    case False
    with 2(2) show ?thesis
      by (intro exI[of _ 0]) (auto simp: Let_def split: option.splits if_splits)
  qed
qed

text \<open>
  A label whose nearest container showing the code and the cost is marked deleted
  adds nothing to the results.
\<close>

lemma scan_deleted:
  assumes "k < length up" "n + k < 6"
    and "\<forall>j<k. \<not> (str_includes (innerText (up ! j)) label_codigo \<and>
                    str_includes (innerText (up ! j)) ''S/'')"
    and "str_includes (innerText (up ! k)) label_codigo"
    and "str_includes (innerText (up ! k)) ''S/''"
    and "isDeleted (up ! k) (drop (Suc k) up)"
  shows "scan n up results = results"
  using assms
proof (induction k arbitrary: n up)
  case 0
  then obtain c rest where "up = c # rest"
    by (cases up) auto
  with 0 show ?case
    by (simp add: Let_def split: option.splits)
next
  case (Suc k)
  then obtain c rest where up: "up = c # rest"
    by (cases up) auto
  from Suc.prems(3) up
  have nq: "\<not> (str_includes (innerText c) label_codigo \<and> str_includes (innerText c) ''S/'')"
    by (metis nth_Cons_0 zero_less_Suc)
  have "scan (n + 1) rest results = results"
  proof (rule Suc.IH)
    show "k < length rest"
      using Suc.prems(1) up by simp
    show "n + 1 + k < 6"
      using Suc.prems(2) by simp
    show "\<forall>j<k. \<not> (str_includes (innerText (rest ! j)) label_codigo \<and>
                    str_includes (innerText (rest ! j)) ''S/'')"
      using Suc.prems(3) up by (metis Suc_less_eq nth_Cons_Suc)
    show "str_includes (innerText (rest ! k)) label_codigo"
      using Suc.prems(4) up by simp
    show "str_includes (innerText (rest ! k)) ''S/''"
      using Suc.prems(5) up by simp
    show "isDeleted (rest ! k) (drop (Suc k) rest)"
      using Suc.prems(6) up by simp
  qed
  with nq up Suc.prems(2) show ?case
    by (auto simp: Let_def)
qed

lemma fold_scan_mem:
  "r \<in> set (foldl (\<lambda>results up. scan 0 up results) acc ls) \<Longrightarrow>
     r \<in> set acc \<or> (\<exists>up \<in> set ls. scan 0 up [] = [r])"
proof (induction ls arbitrary: acc)
  case Nil
  then show ?case by simp
next
  case (Cons up ls)
  from Cons.IH[of "scan 0 up acc"] Cons.prems
  have "r \<in> set (scan 0 up acc) \<or> (\<exists>up \<in> set ls. scan 0 up [] = [r])"
    by simp
  moreover have "r \<in> set (scan 0 up acc) \<Longrightarrow> r \<in> set acc \<or> scan 0 up [] = [r]"
    using scan_single[of 0 up] by (subst (asm) scan_acc) (auto split: list.splits if_splits)
  ultimately show ?case
    by auto
qed

lemma fold_scan_empty:
  "foldl (\<lambda>results up. scan 0 up results) acc ls = [] \<longleftrightarrow>
     acc = [] \<and> (\<forall>up \<in> set ls. scan 0 up [] = [])"
proof (induction ls arbitrary: acc)
  case Nil
  then show ?case by simp
next
  case (Cons up ls)
  have "scan 0 up acc = [] \<longleftrightarrow> acc = [] \<and> scan 0 up [] = []"
    using scan_single[of 0 up] by (subst scan_acc) (auto split: list.splits)
  with Cons.IH[of "scan 0 up acc"] show ?case
    by auto
qed

lemma scrape_cases: "scrape doc = [] \<or> scrape doc = [last (scrape_results doc)]"
  by (simp add: scrape_def Let_def)

text \<open>
  Claim C9. The list that the scrape returns has at most one element. It is empty
  exactly when no label yields an entry. Otherwise its element is the last entry
  added to \<open>results\<close>, and that entry was read, within six levels above an order
  label, from the nearest container showing the code and the cost, a container that
  is not marked deleted (neither it, nor an element around it, nor one inside it
  has the class \<open>time-deleted\<close>) and whose order number it carries. A label whose
  container is marked deleted adds nothing.
\<close>

theorem scrape_last_undeleted:
  "length (scrape doc) \<le> 1 \<and>
   (scrape doc = [] \<longleftrightarrow> (\<forall>up \<in> set (order_labels [] doc). scan 0 up [] = [])) \<and>
   (\<forall>r. r \<in> set (scrape doc) \<longrightarrow>
      r = last (scrape_results doc) \<and>
      (\<exists>up \<in> set (order_labels [] doc). \<exists>k. k < length up \<and> k < 6 \<and>
          \<not> isDeleted (up ! k) (drop (Suc k) up) \<and>
          str_includes (innerText (up ! k)) label_codigo \<and>
          str_includes (innerText (up ! k)) ''S/'' \<and>
          orderMatch (innerText (up ! k)) = Some (orderNumber r))) \<and>
   (\<forall>up k results. k < length up \<and> k < 6 \<and>
      (\<forall>j<k. \<not> (str_includes (innerText (up ! j)) label_codigo \<and>
                  str_includes (innerText (up ! j)) ''S/'')) \<and>
      str_includes (innerText (up ! k)) label_codigo \<and>
      str_includes (innerText (up ! k)) ''S/'' \<and>
      isDeleted (up ! k) (drop (Suc k) up) \<longrightarrow> scan 0 up results = results)"
proof (intro conjI allI impI)
  show "length (scrape doc) \<le> 1"
    by (simp add: scrape_def Let_def)
next
  show "scrape doc = [] \<longleftrightarrow> (\<forall>up \<in> set (order_labels [] doc). scan 0 up [] = [])"
    using fold_scan_empty[of "[]" "order_labels [] doc"]
    by (simp add: scrape_def scrape_results_def Let_def)
next
  fix r
  assume r: "r \<in> set (scrape doc)"
  then have ne: "scrape_results doc \<noteq> []" and eq: "r = last (scrape_results doc)"
    by (auto simp: scrape_def Let_def split: if_splits)
  show "r = last (scrape_results doc)"
    by (rule eq)
  from ne eq have "r \<in> set (scrape_results doc)"
    by simp
  then obtain up where up: "up \<in> set (order_labels [] doc)" and sc: "scan 0 up [] = [r]"
    using fold_scan_mem[of r "[]" "order_labels [] doc"] by (auto simp: scrape_results_def)
  from scan_entry[OF sc] obtain k where
    "k < length up" "k < 6" "\<not> isDeleted (up ! k) (drop (Suc k) up)"
    "str_includes (innerText (up ! k)) label_codigo" "str_includes (innerText (up ! k)) ''S/''"
    "orderMatch (innerText (up ! k)) = Some (orderNumber r)"
    by auto
  with up show "\<exists>up \<in> set (order_labels [] doc). \<exists>k. k < length up \<and> k < 6 \<and>
          \<not> isDeleted (up ! k) (drop (Suc k) up) \<and>
          str_includes (innerText (up ! k)) label_codigo \<and>
          str_includes (innerText (up ! k)) ''S/'' \<and>
          orderMatch (innerText (up ! k)) = Some (orderNumber r)"
    by (intro bexI[of _ up] exI[of _ k]) simp_all
next
  fix up :: "element list" and k :: nat and results :: "scraped list"
  assume a: "k < length up \<and> k < 6 \<and>
      (\<forall>j<k. \<not> (str_includes (innerText (up ! j)) label_codigo \<and>
                  str_includes (innerText (up ! j)) ''S/'')) \<and>
      str_includes (innerText (up ! k)) label_codigo \<and>
      str_includes (innerText (up ! k)) ''S/'' \<and>
      isDeleted (up ! k) (drop (Suc k) up)"
  show "scan 0 up results = results"
    by (rule scan_deleted[of k up 0]) (use a in simp_all)
qed

theorem scrape_last_undeleted_witness:
  "\<lparr>orderNumber = ''101'', code = ''AB1'', cost = ''10.00''\<rparr> \<in> set (scrape pending_doc) \<and>
   \<lparr>orderNumber = ''101'', code = ''AB1'', cost = ''10.00''\<rparr> = last (scrape_results pending_doc) \<and>
   length (scrape pending_doc) \<le> 1"
proof -
  have a: "\<lparr>orderNumber = ''101'', code = ''AB1'', cost = ''10.00''\<rparr> \<in> set (scrape pending_doc)"
    by code_simp
  show ?thesis
    using a scrape_last_undeleted[of pending_doc] by blast
qed

section \<open>Verification: what the endpoints do with a security code\<close>

text \<open>
  Claim C1, at the input on which \<open>POST /register\<close> departs from it. The code
  \<open>12345\<close> is not four digits; \<open>POST /shipments\<close> answers 400 to it, while
  \<open>POST /register\<close> lets it through, the massive workflow runs on the driver and
  fills the four inputs with 1, 2, 3 and 4, a run that the check is there to stop.
\<close>

theorem register_accepts_five_digits:
  "shipments_check (Some ''12345'') = Some ''securityCode must be exactly 4 digits'' \<and>
   register_check (Some ''12345'') = None \<and>
   fst (post_register home_env ''generated.xlsx'' False ''key-1''
          \<lparr>body_filePath = Some ''file.xlsx'', body_shipments = None,
             body_securityCode = Some ''12345''\<rparr> manager1 :: nat http_reply \<times> manager)
     = MassiveReply 200 \<lparr>massive_success = True,
          massive_message = ''Massive shipment registered successfully'', shipments = []\<rparr> \<and>
   filter is_fill (trace (snd (post_register home_env ''generated.xlsx'' False ''key-1''
          \<lparr>body_filePath = Some ''file.xlsx'', body_shipments = None,
             body_securityCode = Some ''12345''\<rparr> manager1 :: nat http_reply \<times> manager)))
     = [Driver ''id-1'' (Fill ''.input-keyCode-1'' ''1''),
        Driver ''id-1'' (Fill ''.input-keyCode-2'' ''2''),
        Driver ''id-1'' (Fill ''.input-keyCode-3'' ''3''),
        Driver ''id-1'' (Fill ''.input-keyCode-4'' ''4'')]"
  by code_simp

text \<open>
  Claim C10, at the input on which the massive workflow departs from it. With an
  empty \<open>securityCode\<close> both checks are skipped and the single-shipment workflow takes
  \<open>5858\<close>; the massive workflow receives the empty string, which is not \<open>undefined\<close>,
  so the default \<open>8002\<close> does not apply: the first \<open>fill\<close> gets \<open>undefined\<close>, nothing is
  filled in and the request ends in the reply 500.
\<close>

theorem register_empty_code_not_default:
  "shipments_check (Some []) = None \<and> register_check (Some []) = None \<and>
   shipment_code \<lparr>productType = Some ''sobre'', origin = Some ''Lima'', destination = Some ''Cusco'',
                   recipient = None, contentType = None, securityCode = Some []\<rparr> = ''5858'' \<and>
   massive_code None = ''8002'' \<and> massive_code (Some []) = [] \<and>
   fst (post_register home_env ''generated.xlsx'' False ''key-1''
          \<lparr>body_filePath = Some ''file.xlsx'', body_shipments = None,
             body_securityCode = Some []\<rparr> manager1 :: nat http_reply \<times> manager)
     = ErrorReply 500 generic_error None \<and>
   filter is_fill (trace (snd (post_register home_env ''generated.xlsx'' False ''key-1''
          \<lparr>body_filePath = Some ''file.xlsx'', body_shipments = None,
             body_securityCode = Some []\<rparr> manager1 :: nat http_reply \<times> manager))) = []"
  by code_simp

text \<open>
  What holds of the defaults: a code that is absent or empty skips both checks, the
  single-shipment workflow then takes \<open>5858\<close>, and the massive workflow takes \<open>8002\<close>
  when the code is absent.
\<close>

lemma falsy_code_defaults:
  "\<not> truthy (securityCode sd) \<Longrightarrow>
     shipments_check (securityCode sd) = None \<and> register_check (securityCode sd) = None \<and>
     shipment_code sd = ''5858''"
  by (auto simp: truthy_def shipments_check_def register_check_def shipment_code_def
           split: option.splits)

lemma absent_code_massive_default: "massive_code None = ''8002''"
  by (simp add: massive_code_def)

declare attemptLogin.simps [simp del]

section \<open>Verification: what reaches the store\<close>


lemma driver_only_refl [simp]: "driver_only i m m"
  unfolding driver_only_def by (intro exI[of _ "[]"]) simp

lemma driver_only_trans: "driver_only i m m1 \<Longrightarrow> driver_only i m1 m2 \<Longrightarrow> driver_only i m m2"
proof -
  assume "driver_only i m m1" "driver_only i m1 m2"
  then obtain as bs where "m1 = m\<lparr>trace := trace m @ map (Driver i) as\<rparr>"
      "m2 = m1\<lparr>trace := trace m1 @ map (Driver i) bs\<rparr>"
    unfolding driver_only_def by blast
  then show ?thesis
    unfolding driver_only_def by (intro exI[of _ "as @ bs"]) simp
qed

lemma driver_only_perform [simp]: "driver_only i m (snd (perform e i a m))"
  unfolding driver_only_def perform_def by (intro exI[of _ "[a]"]) simp

lemma driver_only_perform_all [simp]: "driver_only i m (snd (perform_all e i as m))"
proof (induction as arbitrary: m)
  case Nil
  then show ?case by simp
next
  case (Cons a as)
  show ?case
  proof (cases "fst (perform e i a m)")
    case None
    then have "perform_all e i (a # as) m = perform_all e i as (snd (perform e i a m))"
      by (simp add: split_def)
    then show ?thesis
      using driver_only_trans[OF driver_only_perform Cons] by simp
  next
    case (Some err)
    then have "snd (perform_all e i (a # as) m) = snd (perform e i a m)"
      by (simp add: split_def)
    then show ?thesis
      by simp
  qed
qed

lemma driver_only_attemptLogin: "driver_only i m (snd (attemptLogin e i u p retries attempt m))"
proof (induction "nat (retries + 1 - attempt)" arbitrary: attempt m)
  case 0
  then have "\<not> attempt \<le> retries" by simp
  then show ?case
    by (subst attemptLogin.simps) simp
next
  case (Suc n)
  then have le: "attempt \<le> retries" by simp
  have next_ok: "\<And>m'. driver_only i m' (snd (attemptLogin e i u p retries (attempt + 1) m'))"
    by (rule Suc(1)) (use Suc(2) in simp)
  let ?m1 = "snd (perform_all e i (attempt_actions attempt u p) m)"
  let ?m2 = "snd (perform e i Content ?m1)"
  have d1: "\<And>as. driver_only i m (snd (perform_all e i as m))"
    by simp
  have d2: "\<And>as. driver_only i m (snd (perform e i Content (snd (perform_all e i as m))))"
    using driver_only_trans[OF d1 driver_only_perform] .
  have r1: "driver_only i m (snd (attemptLogin e i u p retries (attempt + 1) ?m1))"
    using driver_only_trans[OF d1 next_ok] .
  have r2: "driver_only i m (snd (attemptLogin e i u p retries (attempt + 1) ?m2))"
    using driver_only_trans[OF d2 next_ok] .
  show ?case
    by (subst attemptLogin.simps)
       (simp add: le split_def Let_def d1 d2 r1 r2 split: option.splits)
qed

lemma driver_only_frame:
  assumes "driver_only i m m'"
  shows "instances m' = instances m" "store m' = store m" "initialized m' = initialized m"
    "browser m' = browser m"
  using assms unfolding driver_only_def by auto

lemma set_field_password:
  "fst fv \<noteq> ''password'' \<Longrightarrow> row_password (set_field r fv) = row_password r"
  by (cases fv) (auto split: jsval.splits)

lemma apply_data_password:
  "''password'' \<notin> fst ` set d \<Longrightarrow> row_password (apply_data d r) = row_password r"
  unfolding apply_data_def
  by (induction d arbitrary: r) (auto simp: set_field_password simp del: set_field.simps)

lemma stored_no_password: "set (map fst d) \<subseteq> set stored_fields \<Longrightarrow> ''password'' \<notin> fst ` set d"
  by (auto simp: stored_fields_def claimed_fields_def)

lemma store_inv_frame [simp]:
  "store_inv (m\<lparr>instances := f\<rparr>) = store_inv m"
  "store_inv (m\<lparr>browser := b\<rparr>) = store_inv m"
  "store_inv (m\<lparr>initialized := b\<rparr>) = store_inv m"
  by (auto simp: store_inv_def writes_within_def no_password_def)

lemma inv_driver_only: "driver_only i m m' \<Longrightarrow> store_inv m' = store_inv m"
  unfolding driver_only_def store_inv_def writes_within_def no_password_def
  by (elim exE) (simp add: ball_Un)

lemma store_inv_write:
  assumes "store_inv m" "set (write_fields ev) \<subseteq> set stored_fields"
    and "\<forall>r \<in> set rows. row_password r = None"
  shows "store_inv (m\<lparr>trace := trace m @ [ev]\<rparr>)"
    and "store_inv (m\<lparr>trace := trace m @ [ev], store := rows\<rparr>)"
proof -
  have np: "''password'' \<notin> set (write_fields ev)"
    using assms(2) by (auto simp: stored_fields_def claimed_fields_def)
  show "store_inv (m\<lparr>trace := trace m @ [ev]\<rparr>)"
    using assms(1,2) np by (simp add: store_inv_def writes_within_def no_password_def)
  show "store_inv (m\<lparr>trace := trace m @ [ev], store := rows\<rparr>)"
    using assms np by (simp add: store_inv_def writes_within_def no_password_def)
qed

lemma inv_perform [simp]: "store_inv (snd (perform e i a m)) = store_inv m"
  by (rule inv_driver_only[OF driver_only_perform])

lemma inv_perform_all [simp]: "store_inv (snd (perform_all e i as m)) = store_inv m"
  by (rule inv_driver_only[OF driver_only_perform_all])

lemma inv_attemptLogin [simp]:
  "store_inv (snd (attemptLogin e i u p retries attempt m)) = store_inv m"
  by (rule inv_driver_only[OF driver_only_attemptLogin])

lemma inv_update:
  assumes "store_inv m" "set (map fst d) \<subseteq> set stored_fields"
  shows "store_inv (snd (update_m w d m))"
proof (cases "db_update w d (store m)")
  case None
  then show ?thesis
    using store_inv_write(1)[OF assms(1), of "DbUpdate w d" "[]"] assms(2)
    by (simp add: update_m_def Let_def)
next
  case (Some rows)
  then have rows: "rows = map (\<lambda>x. if matches w x then apply_data d x else x) (store m)"
    by (simp add: db_update_def split: if_splits)
  have "\<forall>r \<in> set rows. row_password r = None"
    using assms(1) stored_no_password[OF assms(2)]
    by (auto simp: rows store_inv_def no_password_def apply_data_password)
  then show ?thesis
    using store_inv_write(2)[OF assms(1), of "DbUpdate w d" rows] assms(2) Some
    by (simp add: update_m_def Let_def)
qed



lemma stored_simps [simp]:
  "''lastUsedAt'' \<in> set stored_fields" "''storageState'' \<in> set stored_fields"
  "''username'' \<in> set stored_fields" "''isActive'' \<in> set stored_fields"
  "''id'' \<in> set stored_fields" "''apiKey'' \<in> set stored_fields"
  by (simp_all add: stored_fields_def claimed_fields_def)

lemma inv_save: "store_inv m \<Longrightarrow> store_inv (saveStorageState e k m)"
  by (simp add: saveStorageState_def split_def inv_update split: option.splits)

lemma driver_only_open_context: "driver_only (row_id r) m (snd (open_context e r m))"
  using driver_only_trans[OF driver_only_perform driver_only_perform]
  by (simp add: open_context_def split_def split: option.splits)

lemma inv_open_context [simp]: "store_inv (snd (open_context e r m)) = store_inv m"
  by (rule inv_driver_only[OF driver_only_open_context])

lemma inv_restoreCore: "store_inv m \<Longrightarrow> store_inv (snd (restoreCore e r m))"
  by (simp add: restoreCore_def split_def Let_def inv_update inv_save split: option.splits bool.splits)

lemma inv_launch [simp]: "store_inv (snd (launch_if_needed e m)) = store_inv m"
  by (simp add: launch_if_needed_def split_def split: option.splits bool.splits)

lemma inv_foldl_restore:
  "store_inv m \<Longrightarrow> store_inv (foldl (\<lambda>m' r. snd (restoreCore e r m')) m rows)"
  by (induction rows arbitrary: m) (simp_all add: inv_restoreCore)

lemma inv_initialize: "store_inv m \<Longrightarrow> store_inv (initialize e m)"
  by (simp add: initialize_def split_def inv_foldl_restore split: option.splits bool.splits)

lemma inv_restoreInstance: "store_inv m \<Longrightarrow> store_inv (snd (restoreInstance e r m))"
  by (simp add: restoreInstance_def inv_restoreCore inv_initialize)

lemma inv_getOrRestore: "store_inv m \<Longrightarrow> store_inv (snd (getOrRestoreInstance e k m))"
  by (simp add: getOrRestoreInstance_def split_def inv_restoreInstance split: option.splits sum.splits bool.splits)







lemma inv_shipment_flow: "store_inv m \<Longrightarrow> store_inv (snd (shipment_flow e pf k inst sd m))"
  by (simp add: shipment_flow_def split_def Let_def inv_save split: option.splits bool.splits)

lemma inv_registerShipment: "store_inv m \<Longrightarrow> store_inv (snd (registerShipment e pf k sd m))"
  by (simp add: registerShipment_def split_def inv_initialize inv_getOrRestore inv_shipment_flow
        split: option.splits sum.splits bool.splits)

lemma driver_only_fill_code: "driver_only i m (snd (fill_code e i pin sels m))"
proof (induction sels arbitrary: m)
  case Nil
  then show ?case by simp
next
  case (Cons a sels)
  obtain n sel where a: "a = (n, sel)"
    by (cases a)
  show ?case
  proof (cases "charAt pin n")
    case None
    then show ?thesis
      by (simp add: a)
  next
    case (Some c)
    show ?thesis
    proof (cases "fst (perform e i (Fill sel [c]) m)")
      case None
      then have "snd (fill_code e i pin (a # sels) m)
                   = snd (fill_code e i pin sels (snd (perform e i (Fill sel [c]) m)))"
        using Some by (simp add: a split_def)
      then show ?thesis
        using driver_only_trans[OF driver_only_perform Cons] by simp
    next
      case (Some err)
      then have "snd (fill_code e i pin (a # sels) m) = snd (perform e i (Fill sel [c]) m)"
        using \<open>charAt pin n = Some c\<close> by (simp add: a split_def)
      then show ?thesis
        by simp
    qed
  qed
qed

lemma inv_fill_code [simp]: "store_inv (snd (fill_code e i pin sels m)) = store_inv m"
  by (rule inv_driver_only[OF driver_only_fill_code])

lemma inv_massive_flow: "store_inv m \<Longrightarrow> store_inv (snd (massive_flow e k inst fp sc m))"
  by (simp add: massive_flow_def split_def Let_def inv_save split: option.splits)

lemma inv_registerMassive:
  "store_inv m \<Longrightarrow> store_inv (snd (registerMassiveShipment e k fp sc m))"
  by (simp add: registerMassiveShipment_def split_def inv_initialize inv_getOrRestore
        inv_massive_flow split: option.splits sum.splits)

lemma inv_post_shipments:
  assumes inv: "store_inv m"
  shows "store_inv (snd (post_shipments e pf k body m))"
proof (cases body)
  case None
  then show ?thesis
    using inv by (simp add: post_shipments_def)
next
  case (Some sd)
  have reg: "store_inv (snd (registerShipment e pf k sd m))"
    using inv by (rule inv_registerShipment)
  show ?thesis
    unfolding post_shipments_def Some option.case
    using inv reg by (simp add: split_def split: option.splits sum.splits)
qed

lemma inv_post_register:
  "store_inv m \<Longrightarrow> store_inv (snd (post_register e g dbg k body m :: 'n http_reply \<times> manager))"
proof -
  assume inv: "store_inv m"
  have reg: "\<And>fp. store_inv (snd (registerMassiveShipment e k fp (body_securityCode body) m))"
    using inv by (rule inv_registerMassive)
  show ?thesis
    unfolding post_register_def
    using inv reg by (simp add: split_def split: option.splits sum.splits)
qed










section \<open>Verification: a key that was never created\<close>

lemma set_field_apiKey:
  "fst fv \<noteq> ''apiKey'' \<Longrightarrow> row_apiKey (set_field r fv) = row_apiKey r"
  by (cases fv) (auto split: jsval.splits)

lemma apply_data_apiKey:
  "''apiKey'' \<notin> fst ` set d \<Longrightarrow> row_apiKey (apply_data d r) = row_apiKey r"
  unfolding apply_data_def
  by (induction d arbitrary: r) (auto simp: set_field_apiKey simp del: set_field.simps)

lemma absent_frame [simp]:
  "absent k (m\<lparr>browser := b\<rparr>) = absent k m"
  "absent k (m\<lparr>initialized := b\<rparr>) = absent k m"
  "absent k (m\<lparr>trace := tr\<rparr>) = absent k m"
  by (simp_all add: absent_def)

lemma absent_driver_only: "driver_only i m m' \<Longrightarrow> absent k m' = absent k m"
  unfolding driver_only_def by (elim exE) simp

lemma absent_perform [simp]: "absent k (snd (perform e i a m)) = absent k m"
  by (rule absent_driver_only[OF driver_only_perform])

lemma absent_perform_all [simp]: "absent k (snd (perform_all e i as m)) = absent k m"
  by (rule absent_driver_only[OF driver_only_perform_all])

lemma absent_attemptLogin [simp]:
  "absent k (snd (attemptLogin e i u p retries attempt m)) = absent k m"
  by (rule absent_driver_only[OF driver_only_attemptLogin])

lemma absent_open_context [simp]: "absent k (snd (open_context e r m)) = absent k m"
  by (rule absent_driver_only[OF driver_only_open_context])

lemma absent_instances:
  "k' \<noteq> k \<Longrightarrow> absent k (m\<lparr>instances := (instances m)(k' \<mapsto> t)\<rparr>) = absent k m"
  by (simp add: absent_def)

lemma absent_update:
  assumes "absent k m" "''apiKey'' \<notin> fst ` set d"
  shows "absent k (snd (update_m w d m))"
proof (cases "db_update w d (store m)")
  case None
  then show ?thesis
    using assms(1) by (simp add: update_m_def Let_def)
next
  case (Some rows)
  then have "rows = map (\<lambda>x. if matches w x then apply_data d x else x) (store m)"
    by (simp add: db_update_def split: if_splits)
  then have "\<forall>r \<in> set rows. row_apiKey r \<noteq> k"
    using assms by (auto simp: absent_def apply_data_apiKey)
  then show ?thesis
    using assms(1) Some by (simp add: update_m_def Let_def absent_def)
qed

lemma absent_save: "absent k m \<Longrightarrow> absent k (saveStorageState e k' m)"
  by (simp add: saveStorageState_def split_def absent_update split: option.splits)

lemma absent_restoreCore:
  "absent k m \<Longrightarrow> row_apiKey r \<noteq> k \<Longrightarrow> absent k (snd (restoreCore e r m))"
  by (simp add: restoreCore_def split_def Let_def absent_update absent_save absent_instances
        split: option.splits bool.splits)

lemma absent_launch [simp]: "absent k (snd (launch_if_needed e m)) = absent k m"
  by (simp add: launch_if_needed_def split_def split: option.splits)

lemma store_launch [simp]: "store (snd (launch_if_needed e m)) = store m"
  by (simp add: launch_if_needed_def split_def perform_def split: option.splits)

lemma absent_foldl_restore:
  "absent k m \<Longrightarrow> \<forall>r \<in> set rows. row_apiKey r \<noteq> k \<Longrightarrow>
     absent k (foldl (\<lambda>m' r. snd (restoreCore e r m')) m rows)"
  by (induction rows arbitrary: m) (simp_all add: absent_restoreCore)

lemma absent_initialize: "absent k m \<Longrightarrow> absent k (initialize e m)"
proof -
  assume a: "absent k m"
  then have rows: "\<forall>r \<in> set (store (snd (launch_if_needed e m))). row_apiKey r \<noteq> k"
    by (simp add: absent_def)
  show ?thesis
    using a absent_foldl_restore[where e = e, OF _ rows]
    by (simp add: initialize_def split_def split: option.splits)
qed

lemma absent_getOrRestore: "absent k m \<Longrightarrow> getOrRestoreInstance e k m = (Inr None, m)"
proof -
  assume a: "absent k m"
  then have "db_findFirst k (store m) = None"
    by (auto simp: absent_def db_findFirst_def find_None_iff)
  with a show ?thesis
    by (simp add: getOrRestoreInstance_def getInstance_def absent_def)
qed

lemma absent_delete: "absent k m \<Longrightarrow> fst (delete_m (ByApiKey k) m) = False"
  by (auto simp: delete_m_def db_delete_def absent_def Let_def)


text \<open>
  Claim C3. For a key with no live instance and no row, \<open>getOrRestoreInstance\<close>
  returns null and leaves the manager as it is; \<open>login\<close>, \<open>logout\<close>,
  \<open>registerShipment\<close> and \<open>registerMassiveShipment\<close> throw \<open>Instance not found\<close>,
  \<open>getStatus\<close> returns null and \<open>closeInstance\<close> returns false; the key is still
  unknown afterwards.
\<close>

theorem unknown_key_not_found:
  fixes pf :: "string \<Rightarrow> 'n"
  assumes "absent k m"
  shows "getOrRestoreInstance e k m = (Inr None, m) \<and>
         fst (login e k user password retries m) = Inl ''Instance not found'' \<and>
         fst (logout e k m) = Inl ''Instance not found'' \<and>
         fst (getStatus e k m) = None \<and>
         fst (registerShipment e pf k sd m) = Inl ''Instance not found'' \<and>
         fst (registerMassiveShipment e k filePath secCode m) = Inl ''Instance not found'' \<and>
         fst (closeInstance e k m) = False \<and>
         absent k (snd (login e k user password retries m)) \<and>
         absent k (snd (closeInstance e k m))"
proof -
  have i: "absent k (initialize e m)"
    using assms by (rule absent_initialize)
  have g: "getOrRestoreInstance e k (initialize e m) = (Inr None, initialize e m)"
    using i by (rule absent_getOrRestore)
  have n: "getInstance k (initialize e m) = None"
    using i by (simp add: absent_def getInstance_def)
  have d: "fst (delete_m (ByApiKey k) (initialize e m)) = False"
    using i by (rule absent_delete)
  have d2: "absent k (snd (delete_m (ByApiKey k) (initialize e m)))"
    using i by (auto simp: delete_m_def db_delete_def absent_def Let_def)
  show ?thesis
    using assms i g n d d2
    by (simp add: absent_getOrRestore login_def logout_def getStatus_def registerShipment_def
          registerMassiveShipment_def closeInstance_def Let_def)
qed

theorem unknown_key_not_found_witness:
  "absent ''key-9'' manager1 \<and>
   getOrRestoreInstance home_env ''key-9'' manager1 = (Inr None, manager1) \<and>
   fst (login home_env ''key-9'' ''ana'' ''secret'' 3 manager1) = Inl ''Instance not found'' \<and>
   fst (closeInstance home_env ''key-9'' manager1) = False"
proof -
  have a: "absent ''key-9'' manager1"
    by (simp add: absent_def manager1_def row1_def)
  show ?thesis
    using a unknown_key_not_found[OF a, of home_env "''ana''" "''secret''" 3 length]
    by simp
qed

section \<open>Verification: closing a session\<close>

lemma perform_frame [simp]:
  "instances (snd (perform e i a m)) = instances m"
  "store (snd (perform e i a m)) = store m"
  "initialized (snd (perform e i a m)) = initialized m"
  "browser (snd (perform e i a m)) = browser m"
  "trace (snd (perform e i a m)) = trace m @ [Driver i a]"
  by (simp_all add: perform_def)

lemma initialize_done [simp]: "initialized m \<Longrightarrow> initialize e m = m"
  by (simp add: initialize_def)

lemma delete_m_frame [simp]:
  "instances (snd (delete_m w m)) = instances m"
  "trace (snd (delete_m w m)) = trace m @ [DbDelete w]"
  by (simp_all add: delete_m_def Let_def split: option.splits)






section \<open>Verification: the login attempts\<close>



lemma attemptLogin_frame [simp]:
  "instances (snd (attemptLogin e i u p retries attempt m)) = instances m"
  "store (snd (attemptLogin e i u p retries attempt m)) = store m"
  using driver_only_frame[OF driver_only_attemptLogin] by simp_all



lemma attempt_actions_nonempty [simp]: "attempt_actions attempt u p \<noteq> []"
  by (simp add: attempt_actions_def)






lemma update_m_frame [simp]:
  "instances (snd (update_m w d m)) = instances m"
  "trace (snd (update_m w d m)) = trace m @ [DbUpdate w d]"
  by (simp_all add: update_m_def Let_def split: option.splits)





section \<open>Verification: login on an authenticated session\<close>



end
